theory Spec2Isabelle
  imports Complex_Main "HOL-Library.AList" "HOL-Library.Multiset"
begin

section \<open>Data model of \<open>backup_engine.py\<close>\<close>

text \<open>
  Python \<open>bytes\<close> and \<open>str\<close> are both character lists. The three SQLite tables are
  lists of rows in insertion (rowid) order; \<open>fetchone\<close> after a \<open>SELECT ... WHERE\<close>
  is \<open>find\<close> on that list. A JSON object that Python builds as a \<open>dict\<close> is an
  association list in insertion order with distinct keys.

  The methods are modelled on a database in which the three tables exist with the
  columns that \<open>_init_db\<close> names. \<open>_init_db\<close> itself is not modelled: its third
  \<open>CREATE TABLE\<close> names a column \<open>references\<close>, a reserved word that SQLite rejects
  unquoted (\<open>near "references": syntax error\<close>), so the constructor as written raises
  before the \<open>chunks\<close> table exists.
\<close>

type_synonym bytes = string

record job_row =
  j_id :: string
  j_name :: string
  j_source_paths :: "string list"
  j_exclude_patterns :: "string list"
  j_destination :: string
  j_schedule :: string
  j_compression :: string
  j_last_run :: "real option"
  j_size_bytes :: nat
  j_status :: string

record backup_row =
  b_id :: string
  b_job_id :: string
  b_timestamp :: real
  b_size_bytes :: nat
  b_dedup_ratio :: real
  b_chunk_ids :: "(string \<times> nat) list"

record chunk_row =
  c_id :: string
  c_sha256 :: string
  c_size :: nat
  c_compressed_size :: nat
  c_references :: "(string \<times> int) list"

record db =
  jobs :: "job_row list"
  backups :: "backup_row list"
  chunks :: "chunk_row list"

text \<open>
  The library and operating-system calls of the engine, taken as parameters:
  \<open>sha256\<close> is \<open>hashlib.sha256(data).hexdigest()\<close>; \<open>zlib_compress\<close> is
  \<open>zlib.compress(data, 6)\<close>, \<open>None\<close> when it raises; \<open>walk\<close> gives, for a source
  path, \<open>None\<close> when \<open>Path(p).exists()\<close> is false and otherwise the files that
  \<open>os.walk(p)\<close> yields, in its order, each with its content (\<open>None\<close> when \<open>open\<close>
  raises). For a path that is a regular file \<open>os.walk\<close> yields nothing.
\<close>

record env =
  sha256 :: "bytes \<Rightarrow> string"
  zlib_compress :: "bytes \<Rightarrow> bytes option"
  walk :: "string \<Rightarrow> (string \<times> bytes option) list option"

datatype error = IntegrityError | OSError

definition CHUNK_SIZE :: nat where
  "CHUNK_SIZE = 4096"

section \<open>create_job\<close>

text \<open>
  \<open>job_id\<close> is the value of \<open>hashlib.md5(name + utcnow).hexdigest()[:12]\<close>. The
  primary key of \<open>jobs\<close> makes the \<open>INSERT\<close> raise on a known id; nothing is
  committed then.
\<close>

definition create_job ::
  "string \<Rightarrow> db \<Rightarrow> string \<Rightarrow> string list \<Rightarrow> string \<Rightarrow> string list option \<Rightarrow> string \<Rightarrow> string
     \<Rightarrow> error + (string \<times> db)" where
  "create_job job_id s name source_paths destination exclude_patterns compression schedule =
     (let excl = (case exclude_patterns of None \<Rightarrow> [] | Some [] \<Rightarrow> [] | Some ps \<Rightarrow> ps) in
      if job_id \<in> set (map j_id (jobs s)) then Inl IntegrityError
      else Inr (job_id,
        s\<lparr>jobs := jobs s @
          [\<lparr>j_id = job_id, j_name = name, j_source_paths = source_paths,
            j_exclude_patterns = excl, j_destination = destination, j_schedule = schedule,
            j_compression = compression, j_last_run = None, j_size_bytes = 0,
            j_status = ''idle''\<rparr>]\<rparr>))"

section \<open>run_backup\<close>

text \<open>The \<open>while True: f.read(CHUNK_SIZE)\<close> loop: pieces of \<open>n\<close> bytes, the last one shorter.\<close>

fun chunks_of :: "nat \<Rightarrow> bytes \<Rightarrow> bytes list" where
  "chunks_of n [] = []"
| "chunks_of n (b # bs) =
     (if n = 0 then [] else take n (b # bs) # chunks_of n (drop n (b # bs)))"

text \<open>The local variables of \<open>run_backup\<close> together with the \<open>chunks\<close> table as the open
  transaction sees it.\<close>

record acc =
  acc_chunks :: "chunk_row list"
  chunks_used :: "(string \<times> nat) list"
  total_size :: nat
  compressed_size :: nat

definition dict_get :: "('k \<times> nat) list \<Rightarrow> 'k \<Rightarrow> nat \<Rightarrow> nat" where
  "dict_get d k dflt = (case map_of d k of None \<Rightarrow> dflt | Some v \<Rightarrow> v)"

text \<open>\<open>try: zlib.compress(chunk_data, 6) except: chunk_data\<close>\<close>

definition compress :: "env \<Rightarrow> bytes \<Rightarrow> bytes" where
  "compress e chunk_data =
     (case zlib_compress e chunk_data of Some z \<Rightarrow> z | None \<Rightarrow> chunk_data)"

definition new_chunk_row :: "env \<Rightarrow> bytes \<Rightarrow> chunk_row" where
  "new_chunk_row e chunk_data =
     \<lparr>c_id = ''chunk_'' @ take 8 (sha256 e chunk_data), c_sha256 = sha256 e chunk_data,
      c_size = length chunk_data, c_compressed_size = length (compress e chunk_data),
      c_references = []\<rparr>"

text \<open>The body of the read loop for one non-empty piece. The \<open>INSERT\<close> raises when the
  primary key \<open>chunk_<first 8 hex digits>\<close> is already in the table.\<close>

definition store_chunk :: "env \<Rightarrow> acc \<Rightarrow> bytes \<Rightarrow> error + acc" where
  "store_chunk e a chunk_data =
     (let sha = sha256 e chunk_data;
          tot = total_size a + length chunk_data
      in case find (\<lambda>r. c_sha256 r = sha) (acc_chunks a) of
           Some existing \<Rightarrow>
             Inr (a\<lparr>chunks_used := AList.update sha (dict_get (chunks_used a) sha 0 + 1) (chunks_used a),
                    total_size := tot,
                    compressed_size := compressed_size a + c_compressed_size existing\<rparr>)
         | None \<Rightarrow>
             if c_id (new_chunk_row e chunk_data) \<in> set (map c_id (acc_chunks a))
             then Inl IntegrityError
             else Inr (a\<lparr>acc_chunks := acc_chunks a @ [new_chunk_row e chunk_data],
                         chunks_used := AList.update sha 1 (chunks_used a),
                         total_size := tot,
                         compressed_size := compressed_size a + length (compress e chunk_data)\<rparr>))"

fun backup_chunks :: "env \<Rightarrow> acc \<Rightarrow> bytes list \<Rightarrow> error + acc" where
  "backup_chunks e a [] = Inr a"
| "backup_chunks e a (d # ds) =
     (case store_chunk e a d of Inl err \<Rightarrow> Inl err | Inr a' \<Rightarrow> backup_chunks e a' ds)"

fun backup_files :: "env \<Rightarrow> acc \<Rightarrow> (string \<times> bytes option) list \<Rightarrow> error + acc" where
  "backup_files e a [] = Inr a"
| "backup_files e a ((file_path, content) # fs) =
     (case content of
        None \<Rightarrow> Inl OSError
      | Some data \<Rightarrow>
          (case backup_chunks e a (chunks_of CHUNK_SIZE data) of
             Inl err \<Rightarrow> Inl err
           | Inr a' \<Rightarrow> backup_files e a' fs))"

fun backup_paths :: "env \<Rightarrow> acc \<Rightarrow> string list \<Rightarrow> error + acc" where
  "backup_paths e a [] = Inr a"
| "backup_paths e a (src_path # ps) =
     (case walk e src_path of
        None \<Rightarrow> backup_paths e a ps
      | Some fs \<Rightarrow>
          (case backup_files e a fs of
             Inl err \<Rightarrow> Inl err
           | Inr a' \<Rightarrow> backup_paths e a' ps))"

definition ratio :: "nat \<Rightarrow> nat \<Rightarrow> real" where
  "ratio stored logical = (if logical > 0 then real stored / real logical else 0)"

text \<open>
  \<open>backup_id\<close> is the value of \<open>hashlib.md5(job_id + utcnow).hexdigest()[:12]\<close>,
  \<open>now1\<close> and \<open>now2\<close> the two later readings of the clock. \<open>Inl\<close> is an exception
  leaving \<open>run_backup\<close>: nothing was committed, the database is the one before the
  call. \<open>Inr (None, s)\<close> is the early \<open>return None\<close>.
\<close>

definition run_backup ::
  "env \<Rightarrow> string \<Rightarrow> real \<Rightarrow> real \<Rightarrow> db \<Rightarrow> string \<Rightarrow> error + (string option \<times> db)" where
  "run_backup e backup_id now1 now2 s job_id =
     (case find (\<lambda>j. j_id j = job_id) (jobs s) of
        None \<Rightarrow> Inr (None, s)
      | Some job \<Rightarrow>
          (case backup_paths e
                  \<lparr>acc_chunks = chunks s, chunks_used = [], total_size = 0, compressed_size = 0\<rparr>
                  (j_source_paths job) of
             Inl err \<Rightarrow> Inl err
           | Inr a \<Rightarrow>
               if backup_id \<in> set (map b_id (backups s)) then Inl IntegrityError
               else Inr (Some backup_id,
                 \<lparr>jobs = map (\<lambda>j. if j_id j = job_id
                                  then j\<lparr>j_last_run := Some now2, j_size_bytes := total_size a,
                                         j_status := ''completed''\<rparr>
                                  else j) (jobs s),
                  backups = backups s @
                    [\<lparr>b_id = backup_id, b_job_id = job_id, b_timestamp = now1,
                      b_size_bytes = total_size a,
                      b_dedup_ratio = ratio (compressed_size a) (total_size a),
                      b_chunk_ids = chunks_used a\<rparr>],
                  chunks = acc_chunks a\<rparr>)))"

section \<open>list_backups\<close>

text \<open>
  \<open>ORDER BY timestamp DESC\<close>. SQL leaves the order of rows with equal timestamps open;
  the model keeps them in table order.
\<close>

definition order_by_timestamp_desc :: "backup_row list \<Rightarrow> backup_row list" where
  "order_by_timestamp_desc rows = sort_key (\<lambda>b. - b_timestamp b) rows"

record backup_info =
  bi_id :: string
  bi_job_id :: string
  bi_timestamp :: string
  bi_size_bytes :: nat
  bi_dedup_ratio :: real

text \<open>\<open>isoformat\<close> is \<open>datetime.fromtimestamp(t).isoformat()\<close>, a parameter.\<close>

definition backup_info_of :: "(real \<Rightarrow> string) \<Rightarrow> backup_row \<Rightarrow> backup_info" where
  "backup_info_of isoformat row =
     \<lparr>bi_id = b_id row, bi_job_id = b_job_id row, bi_timestamp = isoformat (b_timestamp row),
      bi_size_bytes = b_size_bytes row, bi_dedup_ratio = b_dedup_ratio row\<rparr>"

text \<open>The argument is \<open>None\<close> by default; \<open>if job_id:\<close> is false for \<open>None\<close> and for the
  empty string.\<close>

definition list_backups :: "(real \<Rightarrow> string) \<Rightarrow> db \<Rightarrow> string option \<Rightarrow> backup_info list" where
  "list_backups isoformat s job_id =
     map (backup_info_of isoformat)
       (case job_id of
          None \<Rightarrow> order_by_timestamp_desc (backups s)
        | Some jid \<Rightarrow>
            if jid \<noteq> [] then order_by_timestamp_desc (filter (\<lambda>b. b_job_id b = jid) (backups s))
            else order_by_timestamp_desc (backups s))"

section \<open>restore\<close>

text \<open>The output directory is the map from the names of the files in it to their content.\<close>

type_synonym directory = "string \<rightharpoonup> bytes"

fun restore_chunks :: "db \<Rightarrow> directory \<Rightarrow> (string \<times> nat) list \<Rightarrow> directory" where
  "restore_chunks s out [] = out"
| "restore_chunks s out ((sha, cnt) # chunk_refs) =
     (case find (\<lambda>r. c_sha256 r = sha) (chunks s) of
        Some chunk \<Rightarrow>
          restore_chunks s (out(''restored_'' @ take 8 sha \<mapsto> ''CHUNK_DATA_PLACEHOLDER'')) chunk_refs
      | None \<Rightarrow> restore_chunks s out chunk_refs)"

definition restore :: "db \<Rightarrow> string \<Rightarrow> directory \<Rightarrow> bool \<times> directory" where
  "restore s backup_id out =
     (case find (\<lambda>b. b_id b = backup_id) (backups s) of
        None \<Rightarrow> (False, out)
      | Some row \<Rightarrow> (True, restore_chunks s out (b_chunk_ids row)))"

section \<open>prune\<close>

text \<open>\<open>xs[k:]\<close> for a Python integer \<open>k\<close>: a negative \<open>k\<close> counts from the end.\<close>

definition slice_from :: "int \<Rightarrow> 'a list \<Rightarrow> 'a list" where
  "slice_from k xs = (if 0 \<le> k then drop (nat k) xs else drop (length xs - nat (- k)) xs)"

fun delete_backups :: "backup_row list \<Rightarrow> string list \<Rightarrow> backup_row list" where
  "delete_backups rows [] = rows"
| "delete_backups rows (backup_id # to_delete) =
     delete_backups (filter (\<lambda>b. b_id b \<noteq> backup_id) rows) to_delete"

definition prune :: "db \<Rightarrow> string \<Rightarrow> int \<Rightarrow> int \<Rightarrow> int \<Rightarrow> nat \<times> db" where
  "prune s job_id keep_daily keep_weekly keep_monthly =
     (let ids = map b_id (order_by_timestamp_desc (filter (\<lambda>b. b_job_id b = job_id) (backups s)));
          to_delete = slice_from (keep_daily + keep_weekly + keep_monthly) ids
      in (length to_delete, s\<lparr>backups := delete_backups (backups s) to_delete\<rparr>))"

section \<open>verify\<close>

fun verify_chunks :: "db \<Rightarrow> string list \<Rightarrow> bool" where
  "verify_chunks s [] = True"
| "verify_chunks s (sha # keys) =
     (case find (\<lambda>r. c_sha256 r = sha) (chunks s) of
        None \<Rightarrow> False
      | Some chunk \<Rightarrow> verify_chunks s keys)"

definition verify :: "db \<Rightarrow> string \<Rightarrow> bool" where
  "verify s backup_id =
     (case find (\<lambda>b. b_id b = backup_id) (backups s) of
        None \<Rightarrow> False
      | Some row \<Rightarrow> verify_chunks s (map fst (b_chunk_ids row)))"

section \<open>get_stats\<close>

record stats =
  total_chunks :: nat
  total_size_bytes :: nat
  compressed_bytes :: nat
  stats_dedup_ratio :: real
  space_saved_bytes :: int

definition get_stats :: "db \<Rightarrow> stats" where
  "get_stats s =
     (let tsize = sum_list (map c_size (chunks s));
          compressed_total = sum_list (map c_compressed_size (chunks s))
      in \<lparr>total_chunks = length (chunks s),
          total_size_bytes = tsize,
          compressed_bytes = compressed_total,
          stats_dedup_ratio = (if tsize > 0 then real compressed_total / real tsize else 1),
          space_saved_bytes = int tsize - int compressed_total\<rparr>)"

section \<open>Notions used to state the properties\<close>

text \<open>All pieces that a run over the given source paths reads, in reading order.\<close>

definition file_chunks :: "(string \<times> bytes option) list \<Rightarrow> bytes list" where
  "file_chunks fs =
     concat (map (\<lambda>(file_path, content).
        case content of None \<Rightarrow> [] | Some data \<Rightarrow> chunks_of CHUNK_SIZE data) fs)"

definition source_chunks :: "env \<Rightarrow> string list \<Rightarrow> bytes list" where
  "source_chunks e ps =
     concat (map (\<lambda>p. case walk e p of None \<Rightarrow> [] | Some fs \<Rightarrow> file_chunks fs) ps)"

text \<open>\<open>DELETE FROM chunks WHERE sha256 = d\<close>, run on the database from outside the engine
  (the engine itself never deletes a chunk).\<close>

definition remove_chunk :: "string \<Rightarrow> db \<Rightarrow> db" where
  "remove_chunk d s = s\<lparr>chunks := filter (\<lambda>r. c_sha256 r \<noteq> d) (chunks s)\<rparr>"

text \<open>The index of the week (Monday to Sunday, UTC) that a timestamp in seconds since
  1970-01-01 (a Thursday) falls in.\<close>

definition calendar_week :: "real \<Rightarrow> int" where
  "calendar_week t = (\<lfloor>t\<rfloor> div 86400 + 3) div 7"

section \<open>A concrete environment\<close>

text \<open>
  SHA-256 and zlib at the inputs of the examples: the digests of \<open>a\<close> and \<open>abc\<close> are the
  published test vectors, \<open>zlib.compress(b"a", 6)\<close> is the nine bytes
  \<open>78 9c 4b 04 00 00 62 00 62\<close> and \<open>zlib.compress(b"abc", 6)\<close> the eleven bytes
  \<open>78 9c 4b 4c 4a 06 00 02 4d 01 27\<close>. No example applies either function to another
  input. The directory \<open>/one\<close> holds one file with content \<open>a\<close>, \<open>/two\<close> two such files,
  \<open>/pair\<close> a file with content \<open>a\<close> and a file with content \<open>abc\<close>, \<open>/empty\<close> no file.
\<close>

definition sha_a :: string where
  "sha_a = ''ca978112ca1bbdcafac231b39a23dc4da786eff8147c4e72b9807785afee48bb''"

definition sha_abc :: string where
  "sha_abc = ''ba7816bf8f01cfea414140de5dae2223b00361a396177a9cb410ff61f20015ad''"

definition example_env :: env where
  "example_env =
     \<lparr>sha256 = (\<lambda>d. if d = ''a'' then sha_a else if d = ''abc'' then sha_abc else d),
      zlib_compress = (\<lambda>d.
         if d = ''a''
         then Some [CHR 0x78, CHR 0x9C, CHR 0x4B, CHR 0x04, CHR 0x00, CHR 0x00, CHR 0x62,
                    CHR 0x00, CHR 0x62]
         else if d = ''abc''
         then Some [CHR 0x78, CHR 0x9C, CHR 0x4B, CHR 0x4C, CHR 0x4A, CHR 0x06, CHR 0x00,
                    CHR 0x02, CHR 0x4D, CHR 0x01, CHR 0x27]
         else Some d),
      walk = (\<lambda>p. if p = ''/one'' then Some [(''/one/f'', Some ''a'')]
                   else if p = ''/two'' then Some [(''/two/f'', Some ''a''), (''/two/g'', Some ''a'')]
                   else if p = ''/pair'' then Some [(''/pair/f'', Some ''a''), (''/pair/g'', Some ''abc'')]
                   else if p = ''/empty'' then Some []
                   else None)\<rparr>"

definition example_job :: "string \<Rightarrow> job_row" where
  "example_job src =
     \<lparr>j_id = ''0123456789ab'', j_name = ''docs'', j_source_paths = [src],
      j_exclude_patterns = [], j_destination = ''/backups'', j_schedule = ''daily'',
      j_compression = ''lz4'', j_last_run = None, j_size_bytes = 0, j_status = ''idle''\<rparr>"

definition example_db :: "string \<Rightarrow> db" where
  "example_db src = \<lparr>jobs = [example_job src], backups = [], chunks = []\<rparr>"

text \<open>The database after one run of the example job on a source that holds \<open>n\<close> files with
  content \<open>a\<close> (\<open>n > 0\<close>), and after a run on the empty source.\<close>

definition example_chunk :: chunk_row where
  "example_chunk =
     \<lparr>c_id = ''chunk_ca978112'', c_sha256 = sha_a, c_size = 1, c_compressed_size = 9,
      c_references = []\<rparr>"

definition example_db_after :: "string \<Rightarrow> nat \<Rightarrow> db" where
  "example_db_after src n =
     \<lparr>jobs = [(example_job src)\<lparr>j_last_run := Some 1700000001, j_size_bytes := n,
                 j_status := ''completed''\<rparr>],
      backups = [\<lparr>b_id = ''ba9876543210'', b_job_id = ''0123456789ab'', b_timestamp = 1700000000,
                  b_size_bytes = n, b_dedup_ratio = 9, b_chunk_ids = [(sha_a, n)]\<rparr>],
      chunks = [example_chunk]\<rparr>"

definition example_db_after_empty :: db where
  "example_db_after_empty =
     \<lparr>jobs = [(example_job ''/empty'')\<lparr>j_last_run := Some 1700000001, j_size_bytes := 0,
                 j_status := ''completed''\<rparr>],
      backups = [\<lparr>b_id = ''ba9876543210'', b_job_id = ''0123456789ab'', b_timestamp = 1700000000,
                  b_size_bytes = 0, b_dedup_ratio = 0, b_chunk_ids = []\<rparr>],
      chunks = []\<rparr>"

text \<open>
  The database after a second run on \<open>/one\<close>, one second after the first: two backups of
  the example job, both made of the piece \<open>a\<close>.
\<close>

definition example_backup :: "string \<Rightarrow> real \<Rightarrow> backup_row" where
  "example_backup backup_id t =
     \<lparr>b_id = backup_id, b_job_id = ''0123456789ab'', b_timestamp = t, b_size_bytes = 1,
      b_dedup_ratio = 9, b_chunk_ids = [(sha_a, 1)]\<rparr>"

definition example_db_week :: db where
  "example_db_week =
     \<lparr>jobs = [(example_job ''/one'')\<lparr>j_last_run := Some 1700000002, j_size_bytes := 1,
                 j_status := ''completed''\<rparr>],
      backups = [example_backup ''ba9876543210'' 1700000000,
                 example_backup ''ba9876543211'' 1700000001],
      chunks = [example_chunk]\<rparr>"

text \<open>The database after one run on \<open>/pair\<close>: one backup made of the pieces \<open>a\<close> and
  \<open>abc\<close>, both with a chunk row.\<close>

definition example_chunk_abc :: chunk_row where
  "example_chunk_abc =
     \<lparr>c_id = ''chunk_ba7816bf'', c_sha256 = sha_abc, c_size = 3, c_compressed_size = 11,
      c_references = []\<rparr>"

definition example_db_pair :: db where
  "example_db_pair =
     \<lparr>jobs = [(example_job ''/pair'')\<lparr>j_last_run := Some 1700000001, j_size_bytes := 4,
                 j_status := ''completed''\<rparr>],
      backups = [\<lparr>b_id = ''ba9876543210'', b_job_id = ''0123456789ab'', b_timestamp = 1700000000,
                  b_size_bytes = 4, b_dedup_ratio = 5,
                  b_chunk_ids = [(sha_a, 1), (sha_abc, 1)]\<rparr>],
      chunks = [example_chunk, example_chunk_abc]\<rparr>"

text \<open>\<open>isoformat\<close> at the two timestamps of the examples, with UTC as the local time zone.\<close>

definition example_isoformat :: "real \<Rightarrow> string" where
  "example_isoformat t =
     (if t = 1700000000 then ''2023-11-14T22:13:20''
      else if t = 1700000001 then ''2023-11-14T22:13:21'' else [])"

section \<open>Properties of the backup loop\<close>

lemma find_Some_set: "find P xs = Some x \<Longrightarrow> P x \<and> x \<in> set xs"
  by (induction xs) (auto split: if_splits)

lemma backup_chunks_append:
  "backup_chunks e a (xs @ ys) =
     (case backup_chunks e a xs of Inl err \<Rightarrow> Inl err | Inr a' \<Rightarrow> backup_chunks e a' ys)"
  by (induction xs arbitrary: a) (auto split: sum.splits)

lemma backup_files_flat:
  "backup_files e a fs = Inr a' \<Longrightarrow> backup_chunks e a (file_chunks fs) = Inr a'"
proof (induction fs arbitrary: a)
  case Nil
  then show ?case by (simp add: file_chunks_def)
next
  case (Cons f fs)
  obtain p c where f: "f = (p, c)" by (cases f)
  from Cons.prems f obtain data a1 where c: "c = Some data"
    and a1: "backup_chunks e a (chunks_of CHUNK_SIZE data) = Inr a1"
    and rest: "backup_files e a1 fs = Inr a'"
    by (auto split: option.splits sum.splits)
  have "file_chunks (f # fs) = chunks_of CHUNK_SIZE data @ file_chunks fs"
    by (simp add: file_chunks_def f c)
  with a1 Cons.IH [OF rest] show ?case
    by (simp add: backup_chunks_append)
qed

lemma backup_paths_flat:
  "backup_paths e a ps = Inr a' \<Longrightarrow> backup_chunks e a (source_chunks e ps) = Inr a'"
proof (induction ps arbitrary: a)
  case Nil
  then show ?case by (simp add: source_chunks_def)
next
  case (Cons p ps)
  show ?case
  proof (cases "walk e p")
    case None
    with Cons.prems have "backup_paths e a ps = Inr a'" by simp
    from Cons.IH [OF this] None show ?thesis by (simp add: source_chunks_def)
  next
    case (Some fs)
    with Cons.prems obtain a1 where a1: "backup_files e a fs = Inr a1"
      and rest: "backup_paths e a1 ps = Inr a'"
      by (auto split: sum.splits)
    have "source_chunks e (p # ps) = file_chunks fs @ source_chunks e ps"
      by (simp add: source_chunks_def Some)
    with backup_files_flat [OF a1] Cons.IH [OF rest] show ?thesis
      by (simp add: backup_chunks_append)
  qed
qed

text \<open>What one step does to the table and to the dictionary.\<close>

lemma store_chunk_cases:
  assumes "store_chunk e a d = Inr a'"
  obtains (existing) r where "find (\<lambda>r. c_sha256 r = sha256 e d) (acc_chunks a) = Some r"
      "acc_chunks a' = acc_chunks a"
      "chunks_used a' = AList.update (sha256 e d) (dict_get (chunks_used a) (sha256 e d) 0 + 1) (chunks_used a)"
      "total_size a' = total_size a + length d"
      "compressed_size a' = compressed_size a + c_compressed_size r"
  | (new) "find (\<lambda>r. c_sha256 r = sha256 e d) (acc_chunks a) = None"
      "c_id (new_chunk_row e d) \<notin> set (map c_id (acc_chunks a))"
      "acc_chunks a' = acc_chunks a @ [new_chunk_row e d]"
      "chunks_used a' = AList.update (sha256 e d) 1 (chunks_used a)"
      "total_size a' = total_size a + length d"
      "compressed_size a' = compressed_size a + length (compress e d)"
  using assms by (auto simp: store_chunk_def Let_def split: option.splits if_splits)

lemma backup_chunks_rows:
  "backup_chunks e a ds = Inr a' \<Longrightarrow>
   \<exists>new. acc_chunks a' = acc_chunks a @ new \<and> set new \<subseteq> new_chunk_row e ` set ds"
proof (induction ds arbitrary: a)
  case Nil
  then show ?case by simp
next
  case (Cons d ds)
  from Cons.prems obtain a1 where s: "store_chunk e a d = Inr a1"
    and rest: "backup_chunks e a1 ds = Inr a'"
    by (auto split: sum.splits)
  from Cons.IH [OF rest] obtain new where
    new: "acc_chunks a' = acc_chunks a1 @ new" "set new \<subseteq> new_chunk_row e ` set ds"
    by blast
  from s show ?case
  proof (cases rule: store_chunk_cases)
    case (existing r)
    with new show ?thesis by auto
  next
    case new': new
    with new have "acc_chunks a' = acc_chunks a @ (new_chunk_row e d # new)" by simp
    moreover have "set (new_chunk_row e d # new) \<subseteq> new_chunk_row e ` set (d # ds)"
      using new(2) by auto
    ultimately show ?thesis by blast
  qed
qed

lemma backup_chunks_distinct:
  "backup_chunks e a ds = Inr a' \<Longrightarrow> distinct (map c_sha256 (acc_chunks a)) \<Longrightarrow>
   distinct (map c_sha256 (acc_chunks a'))"
proof (induction ds arbitrary: a)
  case Nil
  then show ?case by simp
next
  case (Cons d ds)
  from Cons.prems obtain a1 where s: "store_chunk e a d = Inr a1"
    and rest: "backup_chunks e a1 ds = Inr a'"
    by (auto split: sum.splits)
  from s have "distinct (map c_sha256 (acc_chunks a1))"
  proof (cases rule: store_chunk_cases)
    case (existing r)
    with Cons.prems show ?thesis by simp
  next
    case new
    from new(1) have "sha256 e d \<notin> c_sha256 ` set (acc_chunks a)"
      by (auto simp: find_None_iff)
    with new(3) Cons.prems(2) show ?thesis by (simp add: new_chunk_row_def)
  qed
  with Cons.IH [OF rest] show ?case .
qed

lemma backup_chunks_counts:
  "backup_chunks e a ds = Inr a' \<Longrightarrow>
   fst ` set (chunks_used a) \<subseteq> c_sha256 ` set (acc_chunks a) \<Longrightarrow>
   dict_get (chunks_used a') k 0 = dict_get (chunks_used a) k 0 + count_list (map (sha256 e) ds) k"
proof (induction ds arbitrary: a)
  case Nil
  then show ?case by simp
next
  case (Cons d ds)
  from Cons.prems obtain a1 where s: "store_chunk e a d = Inr a1"
    and rest: "backup_chunks e a1 ds = Inr a'"
    by (auto split: sum.splits)
  have step: "dict_get (chunks_used a1) k 0 =
      dict_get (chunks_used a) k 0 + (if sha256 e d = k then 1 else 0)"
    using s
  proof (cases rule: store_chunk_cases)
    case (existing r)
    then show ?thesis by (simp add: dict_get_def update_conv')
  next
    case new
    from new(1) have "sha256 e d \<notin> c_sha256 ` set (acc_chunks a)"
      by (auto simp: find_None_iff)
    with Cons.prems(2) have "map_of (chunks_used a) (sha256 e d) = None"
      by (auto simp: map_of_eq_None_iff)
    with new(4) show ?thesis by (auto simp: dict_get_def update_conv')
  qed
  have keys: "fst ` set (chunks_used a1) \<subseteq> c_sha256 ` set (acc_chunks a1)"
    using s
  proof (cases rule: store_chunk_cases)
    case (existing r)
    from find_Some_set [OF existing(1)] have "sha256 e d \<in> c_sha256 ` set (acc_chunks a)"
      by force
    with existing(2,3) Cons.prems(2) show ?thesis by (auto simp: dom_update)
  next
    case new
    with Cons.prems(2) show ?thesis by (auto simp: dom_update new_chunk_row_def)
  qed
  from Cons.IH [OF rest keys] step show ?case by auto
qed

text \<open>Every piece read has a chunk row afterwards; with distinct digests, exactly one.\<close>

lemma backup_chunks_present:
  "backup_chunks e a ds = Inr a' \<Longrightarrow> sha256 e ` set ds \<subseteq> c_sha256 ` set (acc_chunks a')"
proof (induction ds arbitrary: a)
  case Nil
  then show ?case by simp
next
  case (Cons d ds)
  from Cons.prems obtain a1 where s: "store_chunk e a d = Inr a1"
    and rest: "backup_chunks e a1 ds = Inr a'"
    by (auto split: sum.splits)
  from s have "sha256 e d \<in> c_sha256 ` set (acc_chunks a1)"
  proof (cases rule: store_chunk_cases)
    case (existing r)
    from find_Some_set [OF existing(1)] existing(2) show ?thesis by force
  next
    case new
    then show ?thesis by (simp add: new_chunk_row_def)
  qed
  moreover from backup_chunks_rows [OF rest] have "set (acc_chunks a1) \<subseteq> set (acc_chunks a')"
    by auto
  ultimately have "sha256 e d \<in> c_sha256 ` set (acc_chunks a')" by blast
  with Cons.IH [OF rest] show ?case by simp
qed

lemma distinct_one_row:
  "distinct (map f xs) \<Longrightarrow> k \<in> f ` set xs \<Longrightarrow> length (filter (\<lambda>y. f y = k) xs) = 1"
proof (induction xs)
  case Nil
  then show ?case by simp
next
  case (Cons x xs)
  show ?case
  proof (cases "f x = k")
    case True
    with Cons.prems(1) have "k \<notin> f ` set xs" by simp
    then have "\<forall>y\<in>set xs. f y \<noteq> k" by blast
    then have "filter (\<lambda>y. f y = k) xs = []" by (simp add: filter_empty_conv)
    with True show ?thesis by simp
  next
    case False
    with Cons.prems have "distinct (map f xs)" "k \<in> f ` set xs" by auto
    from Cons.IH [OF this] False show ?thesis by simp
  qed
qed

text \<open>A run that returns went through every piece of the job's sources.\<close>

lemma run_backup_success:
  assumes "find (\<lambda>j. j_id j = job_id) (jobs s) = Some job"
    and "run_backup e backup_id now1 now2 s job_id = Inr (r, s')"
  obtains a where
    "backup_chunks e \<lparr>acc_chunks = chunks s, chunks_used = [], total_size = 0, compressed_size = 0\<rparr>
       (source_chunks e (j_source_paths job)) = Inr a"
    "r = Some backup_id"
    "backup_id \<notin> set (map b_id (backups s))"
    "chunks s' = acc_chunks a"
    "backups s' = backups s @
       [\<lparr>b_id = backup_id, b_job_id = job_id, b_timestamp = now1, b_size_bytes = total_size a,
         b_dedup_ratio = ratio (compressed_size a) (total_size a), b_chunk_ids = chunks_used a\<rparr>]"
proof -
  from assms obtain a where
    a: "backup_paths e \<lparr>acc_chunks = chunks s, chunks_used = [], total_size = 0, compressed_size = 0\<rparr>
          (j_source_paths job) = Inr a"
    and rest: "backup_id \<notin> set (map b_id (backups s))" "r = Some backup_id"
      "chunks s' = acc_chunks a"
      "backups s' = backups s @
       [\<lparr>b_id = backup_id, b_job_id = job_id, b_timestamp = now1, b_size_bytes = total_size a,
         b_dedup_ratio = ratio (compressed_size a) (total_size a), b_chunk_ids = chunks_used a\<rparr>]"
    by (auto simp: run_backup_def split: sum.splits if_splits)
  from that [OF backup_paths_flat [OF a] rest(2) rest(1) rest(3) rest(4)] show ?thesis .
qed

section \<open>The examples, evaluated\<close>

lemma chunks_of_a: "chunks_of CHUNK_SIZE ''a'' = [''a'']"
  unfolding CHUNK_SIZE_def by simp

lemma chunks_of_abc: "chunks_of CHUNK_SIZE ''abc'' = [''abc'']"
  unfolding CHUNK_SIZE_def by simp

text \<open>The example database is what \<open>create_job\<close> with its default arguments makes of the
  empty tables.\<close>

lemma create_example_job:
  "create_job ''0123456789ab'' \<lparr>jobs = [], backups = [], chunks = []\<rparr> ''docs'' [src]
     ''/backups'' None ''lz4'' ''daily'' = Inr (''0123456789ab'', example_db src)"
  by (simp add: create_job_def example_db_def example_job_def)

lemmas example_defs = run_backup_def example_db_def example_job_def example_env_def
  store_chunk_def new_chunk_row_def compress_def dict_get_def sha_a_def ratio_def

lemma run_one:
  "run_backup example_env ''ba9876543210'' 1700000000 1700000001 (example_db ''/one'') ''0123456789ab'' =
   Inr (Some ''ba9876543210'', example_db_after ''/one'' 1)"
  by (simp add: example_defs example_db_after_def example_chunk_def chunks_of_a Let_def
        del: chunks_of.simps)

lemma run_two:
  "run_backup example_env ''ba9876543210'' 1700000000 1700000001 (example_db ''/two'') ''0123456789ab'' =
   Inr (Some ''ba9876543210'', example_db_after ''/two'' 2)"
  by (simp add: example_defs example_db_after_def example_chunk_def chunks_of_a Let_def
        del: chunks_of.simps)

lemma run_empty:
  "run_backup example_env ''ba9876543210'' 1700000000 1700000001 (example_db ''/empty'') ''0123456789ab'' =
   Inr (Some ''ba9876543210'', example_db_after_empty)"
  by (simp add: example_defs example_db_after_empty_def)

lemma run_again:
  "run_backup example_env ''ba9876543211'' 1700000001 1700000002 (example_db_after ''/one'' 1)
     ''0123456789ab'' = Inr (Some ''ba9876543211'', example_db_week)"
  by (simp add: example_defs example_db_after_def example_db_week_def example_backup_def
        example_chunk_def chunks_of_a Let_def del: chunks_of.simps)

lemma run_pair:
  "run_backup example_env ''ba9876543210'' 1700000000 1700000001 (example_db ''/pair'') ''0123456789ab'' =
   Inr (Some ''ba9876543210'', example_db_pair)"
  by (simp add: example_defs example_db_pair_def example_chunk_def example_chunk_abc_def
        chunks_of_a chunks_of_abc sha_abc_def Let_def del: chunks_of.simps)

lemma find_example_job:
  "find (\<lambda>j. j_id j = ''0123456789ab'') (jobs (example_db src)) = Some (example_job src)"
  by (simp add: example_db_def example_job_def)

lemmas example_states = example_db_week_def example_backup_def example_db_after_def
  example_db_after_empty_def example_db_pair_def example_chunk_def example_chunk_abc_def
  example_job_def sha_a_def sha_abc_def

lemma prune_week:
  "prune example_db_week ''0123456789ab'' 0 2 0 = (0, example_db_week)"
  by (simp add: prune_def Let_def slice_from_def order_by_timestamp_desc_def example_states)

lemma find_pair:
  "find (\<lambda>b. b_id b = ''ba9876543210'') (backups example_db_pair) =
   Some \<lparr>b_id = ''ba9876543210'', b_job_id = ''0123456789ab'', b_timestamp = 1700000000,
          b_size_bytes = 4, b_dedup_ratio = 5, b_chunk_ids = [(sha_a, 1), (sha_abc, 1)]\<rparr>"
  by (simp add: example_db_pair_def)

section \<open>Chunk rows and occurrence counts\<close>

text \<open>
  C2, as the code has it. After a run of \<open>run_backup\<close> that returns, every digest of a
  piece read by the run has exactly one chunk row (when the table had at most one row
  per digest before). The run only appends rows, each for a digest it read and each with
  the empty \<open>references\<close> object, and leaves every row that was in the table as it was;
  the number of occurrences of each digest among the pieces read by this run is what the
  new backup row records in \<open>chunk_ids\<close>. No count is kept in the chunk row.
\<close>

theorem run_backup_chunk_rows:
  assumes "distinct (map c_sha256 (chunks s))"
    and "find (\<lambda>j. j_id j = job_id) (jobs s) = Some job"
    and "run_backup e backup_id now1 now2 s job_id = Inr (r, s')"
  shows "distinct (map c_sha256 (chunks s')) \<and>
     (\<forall>d\<in>set (source_chunks e (j_source_paths job)).
        length (filter (\<lambda>row. c_sha256 row = sha256 e d) (chunks s')) = 1) \<and>
     (\<exists>new. chunks s' = chunks s @ new \<and>
        (\<forall>row\<in>set new. c_references row = [] \<and>
           c_sha256 row \<in> sha256 e ` set (source_chunks e (j_source_paths job)))) \<and>
     (\<exists>b. backups s' = backups s @ [b] \<and>
        (\<forall>k. dict_get (b_chunk_ids b) k 0 =
           count_list (map (sha256 e) (source_chunks e (j_source_paths job))) k))"
proof -
  let ?a0 = "\<lparr>acc_chunks = chunks s, chunks_used = [], total_size = 0, compressed_size = 0\<rparr>"
  from assms(2,3) obtain a where
    a: "backup_chunks e ?a0 (source_chunks e (j_source_paths job)) = Inr a"
    and tab: "chunks s' = acc_chunks a"
    and bk: "backups s' = backups s @
       [\<lparr>b_id = backup_id, b_job_id = job_id, b_timestamp = now1, b_size_bytes = total_size a,
         b_dedup_ratio = ratio (compressed_size a) (total_size a), b_chunk_ids = chunks_used a\<rparr>]"
    by (rule run_backup_success)
  from backup_chunks_distinct [OF a] assms(1) tab
  have one: "distinct (map c_sha256 (chunks s'))" by simp
  have exactly: "\<forall>d\<in>set (source_chunks e (j_source_paths job)).
        length (filter (\<lambda>row. c_sha256 row = sha256 e d) (chunks s')) = 1"
  proof
    fix d assume "d \<in> set (source_chunks e (j_source_paths job))"
    with backup_chunks_present [OF a] tab have "sha256 e d \<in> c_sha256 ` set (chunks s')"
      by auto
    with one show "length (filter (\<lambda>row. c_sha256 row = sha256 e d) (chunks s')) = 1"
      by (rule distinct_one_row)
  qed
  from backup_chunks_rows [OF a] obtain new where
    new: "acc_chunks a = chunks s @ new"
      "set new \<subseteq> new_chunk_row e ` set (source_chunks e (j_source_paths job))"
    by auto
  have "c_references row = [] \<and>
      c_sha256 row \<in> sha256 e ` set (source_chunks e (j_source_paths job))"
    if "row \<in> set new" for row
  proof -
    from that new(2) obtain d where "d \<in> set (source_chunks e (j_source_paths job))"
      and "row = new_chunk_row e d" by auto
    then show ?thesis by (simp add: new_chunk_row_def)
  qed
  with new(1) tab have two: "\<exists>new. chunks s' = chunks s @ new \<and>
        (\<forall>row\<in>set new. c_references row = [] \<and>
           c_sha256 row \<in> sha256 e ` set (source_chunks e (j_source_paths job)))"
    by auto
  have "dict_get (chunks_used a) k 0 =
      count_list (map (sha256 e) (source_chunks e (j_source_paths job))) k" for k
    using backup_chunks_counts [OF a, of k] by (simp add: dict_get_def)
  with bk have three: "\<exists>b. backups s' = backups s @ [b] \<and>
        (\<forall>k. dict_get (b_chunk_ids b) k 0 =
           count_list (map (sha256 e) (source_chunks e (j_source_paths job))) k)"
    by simp
  from one exactly two three show ?thesis by blast
qed

theorem run_backup_chunk_rows_witness:
  "distinct (map c_sha256 (chunks (example_db ''/two''))) \<and>
   find (\<lambda>j. j_id j = ''0123456789ab'') (jobs (example_db ''/two'')) = Some (example_job ''/two'') \<and>
   run_backup example_env ''ba9876543210'' 1700000000 1700000001 (example_db ''/two'')
     ''0123456789ab'' = Inr (Some ''ba9876543210'', example_db_after ''/two'' 2) \<and>
   distinct (map c_sha256 (chunks (example_db_after ''/two'' 2))) \<and>
   length (filter (\<lambda>row. c_sha256 row = sha_a) (chunks (example_db_after ''/two'' 2))) = 1 \<and>
   (\<exists>new. chunks (example_db_after ''/two'' 2) = chunks (example_db ''/two'') @ new \<and>
      (\<forall>row\<in>set new. c_references row = [] \<and>
         c_sha256 row \<in> sha256 example_env `
           set (source_chunks example_env (j_source_paths (example_job ''/two''))))) \<and>
   (\<exists>b. backups (example_db_after ''/two'' 2) = backups (example_db ''/two'') @ [b] \<and>
      (\<forall>k. dict_get (b_chunk_ids b) k 0 =
         count_list (map (sha256 example_env)
           (source_chunks example_env (j_source_paths (example_job ''/two'')))) k))"
proof -
  have h1: "distinct (map c_sha256 (chunks (example_db ''/two'')))"
    by (simp add: example_db_def)
  note t = run_backup_chunk_rows [OF h1 find_example_job run_two]
  have src: "''a'' \<in> set (source_chunks example_env (j_source_paths (example_job ''/two'')))"
    by (simp add: source_chunks_def file_chunks_def example_env_def example_job_def chunks_of_a
          del: chunks_of.simps)
  have sh: "sha256 example_env ''a'' = sha_a"
    by (simp add: example_env_def)
  from t src have "length (filter (\<lambda>row. c_sha256 row = sha256 example_env ''a'')
      (chunks (example_db_after ''/two'' 2))) = 1"
    by blast
  then have one: "length (filter (\<lambda>row. c_sha256 row = sha_a)
      (chunks (example_db_after ''/two'' 2))) = 1"
    unfolding sh .
  from t h1 find_example_job run_two one show ?thesis by blast
qed

text \<open>Two files with the same one-piece content: one chunk row, whose \<open>references\<close> stay
  \<open>{}\<close>; the 2 is in the backup's \<open>chunk_ids\<close>.\<close>

theorem duplicate_content_counterexample:
  "(case run_backup example_env ''ba9876543210'' 1700000000 1700000001 (example_db ''/two'')
          ''0123456789ab'' of
      Inl err \<Rightarrow> False
    | Inr (r, s') \<Rightarrow>
        map (\<lambda>row. (c_sha256 row, c_references row)) (chunks s') = [(sha_a, [])] \<and>
        map b_chunk_ids (backups s') = [[(sha_a, 2)]])"
  by (simp add: run_two example_db_after_def example_chunk_def)

section \<open>Stored sizes\<close>

text \<open>
  C7, as the code has it. Every chunk row that a returning run adds belongs to a piece \<open>d\<close>
  read by that run, with \<open>size\<close> the length of \<open>d\<close> and \<open>compressed_size\<close> the length of
  \<open>zlib.compress(d, 6)\<close>, or of \<open>d\<close> itself when that call raised. Neither the job's
  compression tag nor a comparison of the two lengths enters.
\<close>

theorem run_backup_stored_sizes:
  assumes "find (\<lambda>j. j_id j = job_id) (jobs s) = Some job"
    and "run_backup e backup_id now1 now2 s job_id = Inr (r, s')"
  shows "\<exists>new. chunks s' = chunks s @ new \<and>
     (\<forall>row\<in>set new. \<exists>d\<in>set (source_chunks e (j_source_paths job)).
        c_sha256 row = sha256 e d \<and> c_size row = length d \<and>
        c_compressed_size row =
          length (case zlib_compress e d of Some z \<Rightarrow> z | None \<Rightarrow> d))"
proof -
  let ?a0 = "\<lparr>acc_chunks = chunks s, chunks_used = [], total_size = 0, compressed_size = 0\<rparr>"
  from assms obtain a where
    a: "backup_chunks e ?a0 (source_chunks e (j_source_paths job)) = Inr a"
    and tab: "chunks s' = acc_chunks a"
    by (rule run_backup_success)
  from backup_chunks_rows [OF a] obtain new where
    new: "acc_chunks a = chunks s @ new"
      "set new \<subseteq> new_chunk_row e ` set (source_chunks e (j_source_paths job))"
    by auto
  have "\<exists>d\<in>set (source_chunks e (j_source_paths job)).
        c_sha256 row = sha256 e d \<and> c_size row = length d \<and>
        c_compressed_size row =
          length (case zlib_compress e d of Some z \<Rightarrow> z | None \<Rightarrow> d)"
    if "row \<in> set new" for row
  proof -
    from that new(2) obtain d where "d \<in> set (source_chunks e (j_source_paths job))"
      and "row = new_chunk_row e d" by auto
    then show ?thesis by (auto simp: new_chunk_row_def compress_def)
  qed
  with new(1) tab show ?thesis by auto
qed

theorem run_backup_stored_sizes_witness:
  "find (\<lambda>j. j_id j = ''0123456789ab'') (jobs (example_db ''/one'')) = Some (example_job ''/one'') \<and>
   run_backup example_env ''ba9876543210'' 1700000000 1700000001 (example_db ''/one'')
     ''0123456789ab'' = Inr (Some ''ba9876543210'', example_db_after ''/one'' 1) \<and>
   (\<exists>new. chunks (example_db_after ''/one'' 1) = chunks (example_db ''/one'') @ new \<and>
      (\<forall>row\<in>set new. \<exists>d\<in>set (source_chunks example_env (j_source_paths (example_job ''/one''))).
         c_sha256 row = sha256 example_env d \<and> c_size row = length d \<and>
         c_compressed_size row =
           length (case zlib_compress example_env d of Some z \<Rightarrow> z | None \<Rightarrow> d)))"
proof -
  from run_backup_stored_sizes [OF find_example_job run_one] find_example_job run_one
  show ?thesis by blast
qed

text \<open>A one-byte piece under a job tagged \<open>lz4\<close>: the row records 9 bytes stored for 1 byte
  of content.\<close>

theorem stored_size_counterexample:
  "(case run_backup example_env ''ba9876543210'' 1700000000 1700000001 (example_db ''/one'')
          ''0123456789ab'' of
      Inl err \<Rightarrow> False
    | Inr (r, s') \<Rightarrow>
        map j_compression (jobs s') = [''lz4''] \<and>
        map (\<lambda>row. (c_size row, c_compressed_size row)) (chunks s') = [(1, 9)] \<and>
        \<not> (\<forall>row\<in>set (chunks s'). c_compressed_size row \<le> c_size row))"
  by (simp add: run_one example_job_def example_db_after_def example_chunk_def)

section \<open>Unknown job\<close>

text \<open>
  C10. \<open>run_backup\<close> with a job id that is not in the \<open>jobs\<close> table returns \<open>None\<close> and
  leaves all three tables as they were.
\<close>

theorem run_backup_unknown_job:
  assumes "job_id \<notin> set (map j_id (jobs s))"
  shows "run_backup e backup_id now1 now2 s job_id = Inr (None, s)"
proof -
  from assms have "find (\<lambda>j. j_id j = job_id) (jobs s) = None"
    by (auto simp: find_None_iff)
  then show ?thesis by (simp add: run_backup_def)
qed

theorem run_backup_unknown_job_witness:
  "''ffffffffffff'' \<notin> set (map j_id (jobs (example_db ''/one''))) \<and>
   run_backup example_env ''ba9876543210'' 1700000000 1700000001 (example_db ''/one'') ''ffffffffffff''
     = Inr (None, example_db ''/one'')"
proof -
  have h: "''ffffffffffff'' \<notin> set (map j_id (jobs (example_db ''/one'')))"
    by (simp add: example_db_def example_job_def)
  from h run_backup_unknown_job [OF h] show ?thesis by blast
qed

section \<open>Restore\<close>

text \<open>Whatever the backup, every file of the output directory is after \<open>restore\<close> what it
  was before or holds the placeholder text.\<close>

lemma restore_chunks_content:
  "restore_chunks s out refs name = out name \<or>
   restore_chunks s out refs name = Some ''CHUNK_DATA_PLACEHOLDER''"
proof (induction refs arbitrary: out)
  case Nil
  then show ?case by simp
next
  case (Cons r refs)
  obtain sha cnt where r: "r = (sha, cnt)" by (cases r)
  show ?case
  proof (cases "find (\<lambda>r. c_sha256 r = sha) (chunks s)")
    case None
    with Cons.IH [of out] r show ?thesis by simp
  next
    case (Some chunk)
    define out' where "out' = out(''restored_'' @ take 8 sha \<mapsto> ''CHUNK_DATA_PLACEHOLDER'')"
    from Some r have step: "restore_chunks s out (r # refs) = restore_chunks s out' refs"
      by (simp add: out'_def)
    have "out' name = out name \<or> out' name = Some ''CHUNK_DATA_PLACEHOLDER''"
      unfolding out'_def by (cases "name = ''restored_'' @ take 8 sha") simp_all
    with Cons.IH [of out'] show ?thesis
      unfolding step by metis
  qed
qed

lemma restore_content:
  "snd (restore s backup_id out) name = out name \<or>
   snd (restore s backup_id out) name = Some ''CHUNK_DATA_PLACEHOLDER''"
  using restore_chunks_content [of s out _ name]
  by (simp add: restore_def split: option.splits)

text \<open>
  C1, at one input. The job covers the directory \<open>/one\<close> with the single file \<open>f\<close> of
  content \<open>a\<close>. After \<open>run_backup\<close>, \<open>restore\<close> into an empty directory returns \<open>True\<close>
  and leaves exactly one file there, named after the digest prefix and holding the
  placeholder text: no file \<open>f\<close>, and the byte \<open>a\<close> nowhere.
\<close>

theorem restore_writes_placeholder:
  "run_backup example_env ''ba9876543210'' 1700000000 1700000001 (example_db ''/one'') ''0123456789ab''
     = Inr (Some ''ba9876543210'', example_db_after ''/one'' 1) \<and>
   restore (example_db_after ''/one'' 1) ''ba9876543210'' Map.empty =
     (True, [''restored_ca978112'' \<mapsto> ''CHUNK_DATA_PLACEHOLDER''])"
  by (simp add: run_one) (simp add: restore_def example_states)

section \<open>Pruning\<close>

lemma delete_backups_filter:
  "delete_backups rows ids = filter (\<lambda>b. b_id b \<notin> set ids) rows"
proof (induction ids arbitrary: rows)
  case Nil
  then show ?case by simp
next
  case (Cons i ids)
  have "filter (\<lambda>b. b_id b \<notin> set ids) (filter (\<lambda>b. b_id b \<noteq> i) rows) =
        filter (\<lambda>b. b_id b \<notin> set (i # ids)) rows"
    by (induction rows) auto
  with Cons.IH show ?case by simp
qed

lemma filter_drop_distinct:
  "distinct (map f xs) \<Longrightarrow> filter (\<lambda>x. f x \<notin> set (map f (drop k xs))) xs = take k xs"
proof -
  assume d: "distinct (map f xs)"
  have split: "xs = take k xs @ drop k xs" by simp
  from d have "distinct (map f (take k xs) @ map f (drop k xs))"
    by (metis append_take_drop_id map_append)
  then have disj: "f ` set (take k xs) \<inter> f ` set (drop k xs) = {}"
    by simp
  have a: "filter (\<lambda>x. f x \<notin> set (map f (drop k xs))) (take k xs) = take k xs"
    using disj by (intro filter_True) auto
  have b: "filter (\<lambda>x. f x \<notin> set (map f (drop k xs))) (drop k xs) = []"
    by (intro filter_False) auto
  have "filter (\<lambda>x. f x \<notin> set (map f (drop k xs))) xs =
        filter (\<lambda>x. f x \<notin> set (map f (drop k xs))) (take k xs) @
        filter (\<lambda>x. f x \<notin> set (map f (drop k xs))) (drop k xs)"
    by (metis split filter_append)
  with a b show ?thesis by simp
qed

text \<open>
  C3, as the code has it. With \<open>n = keep_daily + keep_weekly + keep_monthly\<close> not negative
  and backup ids distinct, \<open>prune\<close> keeps the \<open>n\<close> most recent backups of the job, deletes
  the job's other backups, leaves the backups of other jobs alone, and returns the number
  of backups deleted. Weeks and months play no part.
\<close>

theorem prune_keeps_most_recent:
  assumes "distinct (map b_id (backups s))"
    and "0 \<le> keep_daily + keep_weekly + keep_monthly"
  shows "fst (prune s job_id keep_daily keep_weekly keep_monthly) =
           length (filter (\<lambda>b. b_job_id b = job_id) (backups s))
             - nat (keep_daily + keep_weekly + keep_monthly) \<and>
         order_by_timestamp_desc (filter (\<lambda>b. b_job_id b = job_id)
             (backups (snd (prune s job_id keep_daily keep_weekly keep_monthly)))) =
           take (nat (keep_daily + keep_weekly + keep_monthly))
             (order_by_timestamp_desc (filter (\<lambda>b. b_job_id b = job_id) (backups s))) \<and>
         filter (\<lambda>b. b_job_id b \<noteq> job_id)
             (backups (snd (prune s job_id keep_daily keep_weekly keep_monthly))) =
           filter (\<lambda>b. b_job_id b \<noteq> job_id) (backups s)"
proof -
  define k where "k = nat (keep_daily + keep_weekly + keep_monthly)"
  define L where "L = order_by_timestamp_desc (filter (\<lambda>b. b_job_id b = job_id) (backups s))"
  define D where "D = map b_id (drop k L)"
  have pr: "prune s job_id keep_daily keep_weekly keep_monthly =
      (length D, s\<lparr>backups := filter (\<lambda>b. b_id b \<notin> set D) (backups s)\<rparr>)"
    using assms(2)
    by (simp add: prune_def Let_def slice_from_def delete_backups_filter D_def L_def k_def drop_map)
  have setL: "set L = {b \<in> set (backups s). b_job_id b = job_id}"
    by (auto simp: L_def order_by_timestamp_desc_def)
  have dL: "distinct (map b_id L)"
  proof -
    from assms(1) have "distinct (map b_id (filter (\<lambda>b. b_job_id b = job_id) (backups s)))"
      by (rule distinct_map_filter)
    then show ?thesis
      by (simp add: L_def order_by_timestamp_desc_def distinct_map)
  qed
  have one: "length D = length (filter (\<lambda>b. b_job_id b = job_id) (backups s)) - k"
    by (simp add: D_def L_def order_by_timestamp_desc_def)
  have "order_by_timestamp_desc (filter (\<lambda>b. b_job_id b = job_id)
          (filter (\<lambda>b. b_id b \<notin> set D) (backups s))) =
        filter (\<lambda>b. b_id b \<notin> set D) L"
  proof -
    have "filter (\<lambda>b. b_job_id b = job_id) (filter (\<lambda>b. b_id b \<notin> set D) (backups s)) =
          filter (\<lambda>b. b_id b \<notin> set D) (filter (\<lambda>b. b_job_id b = job_id) (backups s))"
      by (simp add: conj_commute)
    then show ?thesis
      by (simp add: L_def order_by_timestamp_desc_def filter_sort)
  qed
  also have "\<dots> = take k L"
    unfolding D_def using dL by (rule filter_drop_distinct)
  finally have two: "order_by_timestamp_desc (filter (\<lambda>b. b_job_id b = job_id)
          (filter (\<lambda>b. b_id b \<notin> set D) (backups s))) = take k L" .
  have three: "filter (\<lambda>b. b_job_id b \<noteq> job_id) (filter (\<lambda>b. b_id b \<notin> set D) (backups s)) =
        filter (\<lambda>b. b_job_id b \<noteq> job_id) (backups s)"
  proof -
    have "b_id b \<notin> set D" if "b \<in> set (backups s)" "b_job_id b \<noteq> job_id" for b
    proof
      assume "b_id b \<in> set D"
      then obtain b' where b': "b' \<in> set (drop k L)" "b_id b' = b_id b"
        by (auto simp: D_def)
      from b'(1) have "b' \<in> set L" by (rule in_set_dropD)
      with setL have "b' \<in> set (backups s)" "b_job_id b' = job_id" by auto
      with assms(1) b'(2) that(1) have "b' = b"
        by (auto simp: distinct_map dest: inj_onD)
      with \<open>b_job_id b' = job_id\<close> that(2) show False by simp
    qed
    then have "filter (\<lambda>b. b_id b \<notin> set D \<and> b_job_id b \<noteq> job_id) (backups s) =
        filter (\<lambda>b. b_job_id b \<noteq> job_id) (backups s)"
      by (intro filter_cong) auto
    then show ?thesis by simp
  qed
  from one two three show ?thesis
    by (simp add: pr k_def L_def)
qed

theorem prune_keeps_most_recent_witness:
  "distinct (map b_id (backups example_db_week)) \<and> (0::int) \<le> 1 + 0 + 0 \<and>
   fst (prune example_db_week ''0123456789ab'' 1 0 0) =
     length (filter (\<lambda>b. b_job_id b = ''0123456789ab'') (backups example_db_week)) - nat (1 + 0 + 0) \<and>
   order_by_timestamp_desc (filter (\<lambda>b. b_job_id b = ''0123456789ab'')
       (backups (snd (prune example_db_week ''0123456789ab'' 1 0 0)))) =
     take (nat (1 + 0 + 0))
       (order_by_timestamp_desc (filter (\<lambda>b. b_job_id b = ''0123456789ab'') (backups example_db_week))) \<and>
   filter (\<lambda>b. b_job_id b \<noteq> ''0123456789ab'')
       (backups (snd (prune example_db_week ''0123456789ab'' 1 0 0))) =
     filter (\<lambda>b. b_job_id b \<noteq> ''0123456789ab'') (backups example_db_week)"
proof -
  have h1: "distinct (map b_id (backups example_db_week))"
    by (simp add: example_states)
  have h2: "(0::int) \<le> 1 + 0 + 0" by simp
  from prune_keeps_most_recent [OF h1 h2, of "''0123456789ab''"] h1 h2 show ?thesis by blast
qed

text \<open>Two backups of one job taken one second apart, in the same calendar week: with
  \<open>keep_daily = 0\<close>, \<open>keep_weekly = 2\<close>, \<open>keep_monthly = 0\<close> both are kept and 0 is
  returned.\<close>

theorem prune_same_week_counterexample:
  "prune example_db_week ''0123456789ab'' 0 2 0 = (0, example_db_week) \<and>
   map b_job_id (backups example_db_week) = [''0123456789ab'', ''0123456789ab''] \<and>
   map (calendar_week \<circ> b_timestamp) (backups example_db_week) = [2811, 2811]"
  by (simp add: prune_week) (simp add: example_states calendar_week_def)

text \<open>
  C4, as the code has it. \<open>prune\<close> writes to the \<open>backups\<close> table only: the \<open>chunks\<close>
  table (rows and their \<open>references\<close>) and the \<open>jobs\<close> table are the same after it.
\<close>

theorem prune_leaves_chunks:
  "chunks (snd (prune s job_id keep_daily keep_weekly keep_monthly)) = chunks s \<and>
   jobs (snd (prune s job_id keep_daily keep_weekly keep_monthly)) = jobs s"
  by (simp add: prune_def Let_def)

text \<open>The only backup that lists the digest of \<open>a\<close> is deleted; the chunk row is still
  there, unchanged.\<close>

theorem prune_unreferenced_chunk_counterexample:
  "map b_chunk_ids (backups (example_db_after ''/one'' 1)) = [[(sha_a, 1)]] \<and>
   prune (example_db_after ''/one'' 1) ''0123456789ab'' 0 0 0 =
     (1, (example_db_after ''/one'' 1)\<lparr>backups := []\<rparr>) \<and>
   chunks ((example_db_after ''/one'' 1)\<lparr>backups := []\<rparr>) =
     [\<lparr>c_id = ''chunk_ca978112'', c_sha256 = sha_a, c_size = 1, c_compressed_size = 9,
       c_references = []\<rparr>]"
  by (simp add: prune_def Let_def slice_from_def order_by_timestamp_desc_def example_states)

section \<open>Results of restore and verify\<close>

lemma verify_chunks_iff:
  "verify_chunks s keys = (\<forall>sha\<in>set keys. \<exists>r\<in>set (chunks s). c_sha256 r = sha)"
proof (induction keys)
  case Nil
  then show ?case by simp
next
  case (Cons sha keys)
  show ?case
  proof (cases "find (\<lambda>r. c_sha256 r = sha) (chunks s)")
    case None
    then have "\<not> (\<exists>r\<in>set (chunks s). c_sha256 r = sha)"
      by (auto simp: find_None_iff)
    with None show ?thesis by simp
  next
    case (Some r)
    from find_Some_set [OF Some] have "\<exists>r\<in>set (chunks s). c_sha256 r = sha"
      by blast
    with Some Cons.IH show ?thesis by simp
  qed
qed

text \<open>
  C5, as the code has it. Both functions return a truth value. \<open>restore\<close> returns \<open>True\<close>
  exactly when the backup id is in the \<open>backups\<close> table, whatever chunks are missing;
  \<open>verify\<close> returns \<open>True\<close> exactly when the backup is there and every digest of its
  \<open>chunk_ids\<close> has a row in the \<open>chunks\<close> table.
\<close>

theorem restore_verify_boolean:
  "fst (restore s backup_id out) = (backup_id \<in> set (map b_id (backups s))) \<and>
   verify s backup_id =
     (\<exists>row. find (\<lambda>b. b_id b = backup_id) (backups s) = Some row \<and>
        (\<forall>sha\<in>set (map fst (b_chunk_ids row)). \<exists>r\<in>set (chunks s). c_sha256 r = sha))"
proof -
  have "fst (restore s backup_id out) = (backup_id \<in> set (map b_id (backups s)))"
  proof (cases "find (\<lambda>b. b_id b = backup_id) (backups s)")
    case None
    then have "backup_id \<notin> set (map b_id (backups s))" by (auto simp: find_None_iff)
    with None show ?thesis by (simp add: restore_def)
  next
    case (Some row)
    from find_Some_set [OF Some] have "backup_id \<in> set (map b_id (backups s))" by force
    with Some show ?thesis by (simp add: restore_def)
  qed
  moreover have "verify s backup_id =
     (\<exists>row. find (\<lambda>b. b_id b = backup_id) (backups s) = Some row \<and>
        (\<forall>sha\<in>set (map fst (b_chunk_ids row)). \<exists>r\<in>set (chunks s). c_sha256 r = sha))"
    by (cases "find (\<lambda>b. b_id b = backup_id) (backups s)")
      (auto simp: verify_def verify_chunks_iff)
  ultimately show ?thesis by simp
qed

theorem restore_verify_boolean_witness:
  "fst (restore example_db_pair ''ba9876543210'' Map.empty) \<and>
   verify example_db_pair ''ba9876543210'' \<and>
   \<not> verify (remove_chunk sha_abc example_db_pair) ''ba9876543210''"
  using restore_verify_boolean [of example_db_pair "''ba9876543210''" Map.empty]
    restore_verify_boolean [of "remove_chunk sha_abc example_db_pair" "''ba9876543210''" Map.empty]
  by (simp add: remove_chunk_def example_states)

text \<open>With the chunk of \<open>abc\<close> missing, \<open>restore\<close> returns \<open>True\<close>; \<open>verify\<close> returns the
  same \<open>False\<close> for that backup as for an unknown backup id.\<close>

theorem restore_missing_chunk_counterexample:
  "map c_sha256 (chunks (remove_chunk sha_abc example_db_pair)) = [sha_a] \<and>
   restore (remove_chunk sha_abc example_db_pair) ''ba9876543210'' Map.empty =
     (True, [''restored_ca978112'' \<mapsto> ''CHUNK_DATA_PLACEHOLDER'']) \<and>
   verify (remove_chunk sha_abc example_db_pair) ''ba9876543210'' = False \<and>
   verify example_db_pair ''00000000ffff'' = False"
  by (simp add: restore_def verify_def remove_chunk_def example_states)

text \<open>
  C8, as the code has it. For a backup in the table whose digests all have a chunk row,
  \<open>verify\<close> returns \<open>True\<close>; once the rows of one of its digests are removed, \<open>verify\<close>
  returns \<open>False\<close>.
\<close>

theorem verify_after_removal:
  assumes "find (\<lambda>b. b_id b = backup_id) (backups s) = Some row"
    and "\<forall>sha\<in>set (map fst (b_chunk_ids row)). \<exists>r\<in>set (chunks s). c_sha256 r = sha"
    and "d \<in> set (map fst (b_chunk_ids row))"
  shows "verify s backup_id = True \<and> verify (remove_chunk d s) backup_id = False"
proof -
  from assms(1,2) have "verify s backup_id"
    by (auto simp: verify_def verify_chunks_iff)
  moreover have "\<not> (\<exists>r\<in>set (chunks (remove_chunk d s)). c_sha256 r = d)"
    by (auto simp: remove_chunk_def)
  with assms(3) have "\<not> verify_chunks (remove_chunk d s) (map fst (b_chunk_ids row))"
    unfolding verify_chunks_iff by blast
  with assms(1) have "\<not> verify (remove_chunk d s) backup_id"
    by (simp add: verify_def remove_chunk_def)
  ultimately show ?thesis by simp
qed

theorem verify_after_removal_witness:
  "find (\<lambda>b. b_id b = ''ba9876543210'') (backups example_db_pair) =
     Some \<lparr>b_id = ''ba9876543210'', b_job_id = ''0123456789ab'', b_timestamp = 1700000000,
            b_size_bytes = 4, b_dedup_ratio = 5, b_chunk_ids = [(sha_a, 1), (sha_abc, 1)]\<rparr> \<and>
   verify example_db_pair ''ba9876543210'' = True \<and>
   verify (remove_chunk sha_abc example_db_pair) ''ba9876543210'' = False"
proof -
  have h2: "\<forall>sha\<in>set (map fst (b_chunk_ids \<lparr>b_id = ''ba9876543210'', b_job_id = ''0123456789ab'',
                b_timestamp = 1700000000, b_size_bytes = 4, b_dedup_ratio = 5,
                b_chunk_ids = [(sha_a, 1), (sha_abc, 1)]\<rparr>)).
            \<exists>r\<in>set (chunks example_db_pair). c_sha256 r = sha"
    by (simp add: example_db_pair_def example_chunk_def example_chunk_abc_def)
  have h3: "sha_abc \<in> set (map fst (b_chunk_ids \<lparr>b_id = ''ba9876543210'', b_job_id = ''0123456789ab'',
                b_timestamp = 1700000000, b_size_bytes = 4, b_dedup_ratio = 5,
                b_chunk_ids = [(sha_a, 1), (sha_abc, 1)]\<rparr>))"
    by simp
  from verify_after_removal [OF find_pair h2 h3] find_pair show ?thesis by blast
qed

text \<open>The result after removing the chunk of \<open>a\<close> is the result after removing the chunk
  of \<open>abc\<close>: it does not tell which digest is missing.\<close>

theorem verify_same_result_counterexample:
  "sha_a \<noteq> sha_abc \<and>
   verify example_db_pair ''ba9876543210'' = True \<and>
   verify (remove_chunk sha_a example_db_pair) ''ba9876543210'' = False \<and>
   verify (remove_chunk sha_abc example_db_pair) ''ba9876543210'' = False"
  by (simp add: verify_def remove_chunk_def example_states)

section \<open>Listing\<close>

lemma sorted_desc:
  "sorted_wrt (\<lambda>x y. y \<le> x) (map b_timestamp (order_by_timestamp_desc rows))"
proof -
  have "sorted (map (\<lambda>b. - b_timestamp b) (order_by_timestamp_desc rows))"
    unfolding order_by_timestamp_desc_def by (rule sorted_sort_key)
  then show ?thesis by (simp add: sorted_wrt_map)
qed

text \<open>
  C9, as the code has it. The entries of \<open>list_backups\<close> come from rows in descending order
  of timestamp; the rows are exactly the backups of the given job when the argument is a
  non-empty string, and all backups when it is \<open>None\<close> or the empty string.
\<close>

theorem list_backups_sorted:
  "\<exists>rows. list_backups isoformat s job_id = map (backup_info_of isoformat) rows \<and>
      sorted_wrt (\<lambda>x y. y \<le> x) (map b_timestamp rows) \<and>
      mset rows =
        mset (case job_id of
                None \<Rightarrow> backups s
              | Some jid \<Rightarrow> if jid = [] then backups s
                            else filter (\<lambda>b. b_job_id b = jid) (backups s))"
proof -
  define sel where "sel = (case job_id of
                None \<Rightarrow> backups s
              | Some jid \<Rightarrow> if jid = [] then backups s
                            else filter (\<lambda>b. b_job_id b = jid) (backups s))"
  have "list_backups isoformat s job_id = map (backup_info_of isoformat) (order_by_timestamp_desc sel)"
    by (simp add: list_backups_def sel_def split: option.splits)
  moreover have "mset (order_by_timestamp_desc sel) = mset sel"
    by (simp add: order_by_timestamp_desc_def)
  ultimately show ?thesis
    using sorted_desc [of sel] unfolding sel_def by blast
qed

theorem list_backups_sorted_witness:
  "\<exists>rows. list_backups example_isoformat example_db_week (Some ''0123456789ab'') =
            map (backup_info_of example_isoformat) rows \<and>
      sorted_wrt (\<lambda>x y. y \<le> x) (map b_timestamp rows) \<and>
      mset rows = mset (backups example_db_week)"
  using list_backups_sorted [of example_isoformat example_db_week "Some ''0123456789ab''"]
  by (simp add: example_states)

text \<open>With the empty string as argument, both backups of job \<open>0123456789ab\<close> are listed,
  though no backup has the empty job id.\<close>

theorem list_backups_empty_id_counterexample:
  "map bi_job_id (list_backups example_isoformat example_db_week (Some [])) =
     [''0123456789ab'', ''0123456789ab''] \<and>
   filter (\<lambda>b. b_job_id b = []) (backups example_db_week) = []"
  by (simp add: list_backups_def order_by_timestamp_desc_def backup_info_of_def example_states)

section \<open>Dedup ratio of an empty backup\<close>

text \<open>
  C6, at one input. The job covers the empty directory \<open>/empty\<close>: the backup row records
  logical size 0 and dedup ratio 0, while \<open>get_stats\<close> on the resulting (empty) chunk
  table reports the ratio 1.
\<close>

theorem empty_backup_ratio:
  "run_backup example_env ''ba9876543210'' 1700000000 1700000001 (example_db ''/empty'') ''0123456789ab''
     = Inr (Some ''ba9876543210'', example_db_after_empty) \<and>
   map (\<lambda>b. (b_size_bytes b, b_dedup_ratio b)) (backups example_db_after_empty) = [(0, 0)] \<and>
   stats_dedup_ratio (get_stats example_db_after_empty) = 1"
  by (simp add: run_empty) (simp add: get_stats_def example_states)

end
